theory Spec2Isabelle
  imports Main "HOL-Library.Sublist"
begin

section \<open>Data model\<close>

text \<open>
  The generic service of \<^verbatim>\<open>src/commons/repository/repository.service.ts\<close> is a class
  \<^verbatim>\<open>RepositoryService<T extends RepositoryEntity, T_DTO>\<close>. Its methods are asynchronous:
  a promise that rejects is the left injection of a sum, a promise that resolves the right
  one. \<^verbatim>\<open>ServiceException\<close> is built from an object \<^verbatim>\<open>{ message, errors }\<close>; every
  other rejection (of a hook, of \<^verbatim>\<open>buildPartial\<close>, of the ORM) is a \<open>Failure\<close>.
\<close>

datatype 'v exn =
    ServiceException (message: string) (errors: "'v list")
  | Failure string

type_synonym ('v, 'a) promise = "'v exn + 'a"

text \<open>
  \<^verbatim>\<open>RepositoryEntity\<close> carries the identifier \<^verbatim>\<open>uuid\<close>; the columns of a concrete
  entity are the extension of the record. \<^verbatim>\<open>DeepPartial<T>\<close> makes every field optional,
  and a \<^verbatim>\<open>T\<close> is a \<^verbatim>\<open>DeepPartial<T>\<close> (the cast in \<^verbatim>\<open>save\<close>), so one record
  stands for both: an absent \<^verbatim>\<open>uuid\<close> is \<open>None\<close>.
\<close>

record entity =
  uuid :: "string option"

text \<open>
  A value of a \<^verbatim>\<open>where\<close> object: the ORM's \<^verbatim>\<open>Raw(sqlGenerator, parameters)\<close> operator,
  or any other value (type \<open>'w\<close>) that a caller put there.
\<close>

datatype 'w find_value =
    Raw (getSql: "string \<Rightarrow> string") (objectLiteralParameters: "(string \<times> string) list")
  | Plain 'w

text \<open>
  \<^verbatim>\<open>PaginatedServiceFilters<T>\<close>: the fields the service reads or writes. Each is optional
  in the source. Any further option of the ORM (ordering, relations) is in the extension
  of the record.
\<close>

record 'w paginated_service_filters =
  where' :: "(string \<rightharpoonup> 'w find_value) option"
  search :: "string option"
  searchFields :: "string list option"
  take' :: "int option"
  skip :: "int option"

text \<open>
  The options object is passed by reference and \<^verbatim>\<open>buildOptionsToFilter\<close> assigns to its
  fields, so the objects live in a store: an address holds an options object, and the
  argument \<^verbatim>\<open>options?\<close> is an address or \<^verbatim>\<open>undefined\<close> (\<open>None\<close>).
\<close>

type_synonym addr = nat

type_synonym ('w, 'z) heap = "addr \<Rightarrow> ('w, 'z) paginated_service_filters_scheme"

record 'x paginated_response =
  data :: "'x entity_scheme list"
  total :: nat
  limit :: "int option"
  offset :: "int option"

section \<open>The search filter\<close>

text \<open>
  \<^verbatim>\<open>Raw((v) => `LOWER(${v}) Like LOWER(:value)`, { value: `%${options.search}%` })\<close>:
  the operator stored under every search field.
\<close>

definition likeOperator :: "string \<Rightarrow> 'w find_value" where
  "likeOperator s =
     Raw (\<lambda>v. ''LOWER('' @ v @ '') Like LOWER(:value)'') [(''value'', ''%'' @ s @ ''%'')]"

text \<open>
  The body of the \<^verbatim>\<open>forEach\<close>: \<^verbatim>\<open>options.where[field] = Raw(...)\<close>, on the object that
  \<^verbatim>\<open>options.where = {}\<close> has just created. That object is reachable through
  \<^verbatim>\<open>options\<close> only, so it is a value of the options object.
\<close>

definition setSearchField ::
  "string \<Rightarrow> (string \<rightharpoonup> 'w find_value) \<Rightarrow> string \<Rightarrow> (string \<rightharpoonup> 'w find_value)" where
  "setSearchField s wh field = wh(field \<mapsto> likeOperator s)"

text \<open>
  \<^verbatim>\<open>options?.searchFields?.length && options?.search?.length\<close> is truthy when both
  fields are present with a length other than 0. Then the object at the address is
  assigned a new \<^verbatim>\<open>where\<close>, filled field by field, and its \<^verbatim>\<open>search\<close> key is deleted.
  The method returns its argument: the same reference.
\<close>

definition buildOptionsToFilter ::
  "addr option \<Rightarrow> ('w, 'z) heap \<Rightarrow> addr option \<times> ('w, 'z) heap" where
  "buildOptionsToFilter options h =
     (case options of
        None \<Rightarrow> (options, h)
      | Some r \<Rightarrow>
          (case (searchFields (h r), search (h r)) of
             (Some fs, Some s) \<Rightarrow>
               if length fs \<noteq> 0 \<and> length s \<noteq> 0 then
                 (options,
                  h(r := (h r)\<lparr>where' := Some (foldl (setSearchField s) Map.empty fs),
                               search := None\<rparr>))
               else (options, h)
           | _ \<Rightarrow> (options, h)))"

section \<open>Collaborators\<close>

text \<open>
  The ORM's \<^verbatim>\<open>UpdateResult\<close>, of which the service reads \<^verbatim>\<open>affected\<close> (declared
  \<^verbatim>\<open>affected?: number\<close>), and the object \<^verbatim>\<open>{ affected }\<close> that \<^verbatim>\<open>remove\<close> returns.
\<close>

record affected_rows =
  affected :: "nat option"

record update_result = affected_rows +
  raw :: string

text \<open>
  The injected \<^verbatim>\<open>Repository<T>\<close>, over a database state \<open>'db\<close> that the model leaves
  abstract: the four methods the service calls. Each takes the state and returns the
  settled promise with the new state. \<^verbatim>\<open>findOneBy\<close> is always called with the criteria
  \<^verbatim>\<open>{ uuid }\<close>, so it takes the identifier; \<^verbatim>\<open>findAndCount\<close> takes the options object
  it is handed (or \<^verbatim>\<open>undefined\<close>).
\<close>

record ('db, 'x, 'v, 'w, 'z) repository =
  r_findOneBy :: "string \<Rightarrow> 'db \<Rightarrow> ('v, 'x entity_scheme option) promise \<times> 'db"
  r_findAndCount ::
    "('w, 'z) paginated_service_filters_scheme option \<Rightarrow> 'db
       \<Rightarrow> ('v, 'x entity_scheme list \<times> nat) promise \<times> 'db"
  r_save :: "'x entity_scheme \<Rightarrow> 'db \<Rightarrow> ('v, 'x entity_scheme) promise \<times> 'db"
  r_softDelete :: "string \<Rightarrow> 'db \<Rightarrow> ('v, update_result) promise \<times> 'db"

text \<open>
  A concrete service: the repository, the members a subclass supplies or overrides
  (\<^verbatim>\<open>buildPartial\<close> is abstract, the two hooks are overridable, \<^verbatim>\<open>dtoConstructor\<close> is
  the class \<^verbatim>\<open>plainToInstance\<close> instantiates) and the library functions
  \<^verbatim>\<open>validate\<close> and \<^verbatim>\<open>isUUID\<close>. The hooks and \<^verbatim>\<open>buildPartial\<close> are asynchronous and
  may use the database.
\<close>

record ('db, 'x, 'd, 'v, 'w, 'z) service =
  repository :: "('db, 'x, 'v, 'w, 'z) repository"
  plainToInstance :: "'d \<Rightarrow> 'd"
  validate :: "'d \<Rightarrow> 'v list"
  isUUID :: "string \<Rightarrow> bool"
  buildPartial :: "'d \<Rightarrow> 'db \<Rightarrow> ('v, 'x entity_scheme) promise \<times> 'db"
  validateBeforeCreate :: "'d \<Rightarrow> 'db \<Rightarrow> ('v, unit) promise \<times> 'db"
  validateBeforeEdit :: "string \<Rightarrow> 'd \<Rightarrow> 'db \<Rightarrow> ('v, unit) promise \<times> 'db"

text \<open>
  What the service's methods call on their collaborators, in the order of the calls:
  the log tells how often, and with what argument, a method reached the persistence
  layer, \<^verbatim>\<open>buildPartial\<close> or a hook.
\<close>

datatype ('x, 'd, 'w, 'z) call =
    ValidateBeforeCreate 'd
  | ValidateBeforeEdit string 'd
  | BuildPartial 'd
  | FindOneBy string
  | FindAndCount "('w, 'z) paginated_service_filters_scheme option"
  | Save "'x entity_scheme"
  | SoftDelete string

record ('db, 'x, 'd, 'w, 'z) world =
  db :: 'db
  calls :: "('x, 'd, 'w, 'z) call list"

text \<open>One call on a collaborator: it runs on the database and is appended to the log.\<close>

definition invoke ::
  "('x, 'd, 'w, 'z) call \<Rightarrow> ('db \<Rightarrow> 'a \<times> 'db) \<Rightarrow> ('db, 'x, 'd, 'w, 'z) world
     \<Rightarrow> 'a \<times> ('db, 'x, 'd, 'w, 'z) world" where
  "invoke c f w = (case f (db w) of (res, d) \<Rightarrow> (res, \<lparr>db = d, calls = calls w @ [c]\<rparr>))"

section \<open>The service\<close>

text \<open>
  \<^verbatim>\<open>validateDto\<close>: instantiate the DTO, validate it, and throw the
  \<^verbatim>\<open>ServiceException\<close> when \<^verbatim>\<open>errors.length\<close> is truthy.
\<close>

definition validateDto :: "('db, 'x, 'd, 'v, 'w, 'z) service \<Rightarrow> 'd \<Rightarrow> ('v, 'd) promise" where
  "validateDto svc json =
     (let dto = plainToInstance svc json;
          errs = validate svc dto
      in if length errs \<noteq> 0
         then Inl (ServiceException ''Por favor, confira os dados preenchidos.'' errs)
         else Inr dto)"

text \<open>The hooks of the base class return at once.\<close>

definition base_validateBeforeCreate :: "'d \<Rightarrow> 'db \<Rightarrow> ('v, unit) promise \<times> 'db" where
  "base_validateBeforeCreate dto d = (Inr (), d)"

definition base_validateBeforeEdit :: "string \<Rightarrow> 'd \<Rightarrow> 'db \<Rightarrow> ('v, unit) promise \<times> 'db" where
  "base_validateBeforeEdit uid dto d = (Inr (), d)"

definition get ::
  "('db, 'x, 'd, 'v, 'w, 'z) service \<Rightarrow> string \<Rightarrow> ('db, 'x, 'd, 'w, 'z) world
     \<Rightarrow> ('v, 'x entity_scheme option) promise \<times> ('db, 'x, 'd, 'w, 'z) world" where
  "get svc uid w =
     (if \<not> isUUID svc uid then (Inr None, w)
      else invoke (FindOneBy uid) (r_findOneBy (repository svc) uid) w)"

text \<open>
  \<^verbatim>\<open>filter\<close>: \<^verbatim>\<open>findAndCount\<close> receives the object that \<^verbatim>\<open>opt\<close> refers to, and
  \<^verbatim>\<open>opt?.take\<close>, \<^verbatim>\<open>opt?.skip\<close> are read from it afterwards. The ORM reads the
  options object and does not assign to it.
\<close>

definition filter' ::
  "('db, 'x, 'd, 'v, 'w, 'z) service \<Rightarrow> addr option \<Rightarrow> ('w, 'z) heap
     \<Rightarrow> ('db, 'x, 'd, 'w, 'z) world
     \<Rightarrow> ('v, 'x paginated_response) promise \<times> ('w, 'z) heap \<times> ('db, 'x, 'd, 'w, 'z) world" where
  "filter' svc options h w =
     (case buildOptionsToFilter options h of
        (opt, h') \<Rightarrow>
          (case invoke (FindAndCount (map_option h' opt))
                  (r_findAndCount (repository svc) (map_option h' opt)) w of
             (Inl e, w') \<Rightarrow> (Inl e, h', w')
           | (Inr (rows, n), w') \<Rightarrow>
               (Inr \<lparr>data = rows, total = n,
                     limit = Option.bind opt (\<lambda>r. take' (h' r)),
                     offset = Option.bind opt (\<lambda>r. skip (h' r))\<rparr>, h', w')))"

text \<open>
  \<^verbatim>\<open>save\<close> returns \<^verbatim>\<open>this.repository.save(model)[0]\<close>: the property \<^verbatim>\<open>0\<close> of the
  promise object. A promise has no indexed property, so the lookup is \<^verbatim>\<open>undefined\<close>
  whatever the promise settles to.
\<close>

definition promiseIndex :: "('v, 'a) promise \<Rightarrow> nat \<Rightarrow> ('v, 'a) promise option" where
  "promiseIndex p i = None"

definition save ::
  "('db, 'x, 'd, 'v, 'w, 'z) service \<Rightarrow> 'x entity_scheme \<Rightarrow> ('db, 'x, 'd, 'w, 'z) world
     \<Rightarrow> ('v, 'x entity_scheme) promise option \<times> ('db, 'x, 'd, 'w, 'z) world" where
  "save svc model w =
     (case invoke (Save model) (r_save (repository svc) model) w of
        (p, w') \<Rightarrow> (promiseIndex p 0, w'))"

definition create ::
  "('db, 'x, 'd, 'v, 'w, 'z) service \<Rightarrow> 'd \<Rightarrow> ('db, 'x, 'd, 'w, 'z) world
     \<Rightarrow> ('v, 'x entity_scheme) promise \<times> ('db, 'x, 'd, 'w, 'z) world" where
  "create svc json w =
     (case validateDto svc json of
        Inl e \<Rightarrow> (Inl e, w)
      | Inr dto \<Rightarrow>
          (case invoke (ValidateBeforeCreate dto) (validateBeforeCreate svc dto) w of
             (Inl e, w1) \<Rightarrow> (Inl e, w1)
           | (Inr _, w1) \<Rightarrow>
               (case invoke (BuildPartial dto) (buildPartial svc dto) w1 of
                  (Inl e, w2) \<Rightarrow> (Inl e, w2)
                | (Inr model, w2) \<Rightarrow> invoke (Save model) (r_save (repository svc) model) w2)))"

definition edit ::
  "('db, 'x, 'd, 'v, 'w, 'z) service \<Rightarrow> string \<Rightarrow> 'd \<Rightarrow> ('db, 'x, 'd, 'w, 'z) world
     \<Rightarrow> ('v, 'x entity_scheme) promise \<times> ('db, 'x, 'd, 'w, 'z) world" where
  "edit svc uid json w =
     (case validateDto svc json of
        Inl e \<Rightarrow> (Inl e, w)
      | Inr dto \<Rightarrow>
          (case invoke (ValidateBeforeEdit uid dto) (validateBeforeEdit svc uid dto) w of
             (Inl e, w1) \<Rightarrow> (Inl e, w1)
           | (Inr _, w1) \<Rightarrow>
               (case invoke (BuildPartial dto) (buildPartial svc dto) w1 of
                  (Inl e, w2) \<Rightarrow> (Inl e, w2)
                | (Inr model, w2) \<Rightarrow>
                    invoke (Save (model\<lparr>uuid := Some uid\<rparr>))
                      (r_save (repository svc) (model\<lparr>uuid := Some uid\<rparr>)) w2)))"

definition remove ::
  "('db, 'x, 'd, 'v, 'w, 'z) service \<Rightarrow> string \<Rightarrow> ('db, 'x, 'd, 'w, 'z) world
     \<Rightarrow> ('v, affected_rows) promise \<times> ('db, 'x, 'd, 'w, 'z) world" where
  "remove svc uid w =
     (case invoke (SoftDelete uid) (r_softDelete (repository svc) uid) w of
        (Inl e, w') \<Rightarrow> (Inl e, w')
      | (Inr result, w') \<Rightarrow> (Inr \<lparr>affected = affected result\<rparr>, w'))"


section \<open>An instance: authors over an in-memory table\<close>

text \<open>
  The service is abstract and its repository is injected. To run the methods on concrete
  inputs, this section supplies one subclass, for an author of the library, and a
  repository that keeps its rows in a list instead of a database: rows are upserted by
  \<^verbatim>\<open>uuid\<close>, a soft delete sets the deletion mark and reports how many live rows had
  the identifier, and lookups skip marked rows. The \<^verbatim>\<open>where\<close> predicate is not
  interpreted. The identifier check accepts five groups of 8, 4, 4, 4 and 12 hexadecimal
  digits separated by hyphens.
\<close>

record author = entity +
  name :: "string option"
  deleted :: bool

record author_dto =
  dto_uuid :: "string option"
  dto_name :: "string option"

definition hexDigit :: "char \<Rightarrow> bool" where
  "hexDigit c = (c \<in> set ''0123456789abcdefABCDEF'')"

fun splitOn :: "char \<Rightarrow> string \<Rightarrow> string list" where
  "splitOn c [] = [[]]"
| "splitOn c (x # xs) =
     (if x = c then [] # splitOn c xs
      else (case splitOn c xs of g # gs \<Rightarrow> (x # g) # gs | [] \<Rightarrow> [[x]]))"

definition uuidSyntax :: "string \<Rightarrow> bool" where
  "uuidSyntax s =
     (let gs = splitOn (CHR ''-'') s
      in map length gs = [8, 4, 4, 4, 12] \<and> list_all (list_all hexDigit) gs)"

definition mem_findOneBy :: "string \<Rightarrow> author list \<Rightarrow> (string, author option) promise \<times> author list" where
  "mem_findOneBy u rows = (Inr (find (\<lambda>a. uuid a = Some u \<and> \<not> deleted a) rows), rows)"

definition mem_findAndCount ::
  "(unit, unit) paginated_service_filters_scheme option \<Rightarrow> author list
     \<Rightarrow> (string, author list \<times> nat) promise \<times> author list" where
  "mem_findAndCount opt rows =
     (let live = filter (\<lambda>a. \<not> deleted a) rows;
          page = (case Option.bind opt skip of None \<Rightarrow> live | Some k \<Rightarrow> drop (nat k) live);
          page' = (case Option.bind opt take' of None \<Rightarrow> page | Some k \<Rightarrow> take (nat k) page)
      in (Inr (page', length live), rows))"

definition mem_save :: "author \<Rightarrow> author list \<Rightarrow> (string, author) promise \<times> author list" where
  "mem_save m rows = (Inr m, filter (\<lambda>a. uuid a \<noteq> uuid m) rows @ [m])"

definition mem_softDelete :: "string \<Rightarrow> author list \<Rightarrow> (string, update_result) promise \<times> author list" where
  "mem_softDelete u rows =
     (Inr \<lparr>affected = Some (length (filter (\<lambda>a. uuid a = Some u \<and> \<not> deleted a) rows)), raw = []\<rparr>,
      map (\<lambda>a. if uuid a = Some u then a\<lparr>deleted := True\<rparr> else a) rows)"

definition author_repository :: "(author list, unit author_ext, string, unit, unit) repository" where
  "author_repository =
     \<lparr>r_findOneBy = mem_findOneBy, r_findAndCount = mem_findAndCount,
      r_save = mem_save, r_softDelete = mem_softDelete\<rparr>"

definition author_validate :: "author_dto \<Rightarrow> string list" where
  "author_validate dto =
     (case dto_name dto of
        None \<Rightarrow> [''name should not be empty'']
      | Some n \<Rightarrow> if n = [] then [''name should not be empty''] else [])"

definition author_buildPartial :: "author_dto \<Rightarrow> author list \<Rightarrow> (string, author) promise \<times> author list" where
  "author_buildPartial dto rows = (Inr \<lparr>uuid = dto_uuid dto, name = dto_name dto, deleted = False\<rparr>, rows)"

definition author_service :: "(author list, unit author_ext, author_dto, string, unit, unit) service" where
  "author_service =
     \<lparr>repository = author_repository, plainToInstance = (\<lambda>json. json),
      validate = author_validate, isUUID = uuidSyntax,
      buildPartial = author_buildPartial,
      validateBeforeCreate = base_validateBeforeCreate,
      validateBeforeEdit = base_validateBeforeEdit\<rparr>"

text \<open>A second subclass, whose \<^verbatim>\<open>buildPartial\<close> rejects (a related record is missing).\<close>

definition failing_service :: "(author list, unit author_ext, author_dto, string, unit, unit) service" where
  "failing_service = author_service\<lparr>buildPartial := (\<lambda>dto rows. (Inl (Failure ''no such publisher''), rows))\<rparr>"

definition ann :: author where
  "ann = \<lparr>uuid = Some ''123e4567-e89b-12d3-a456-426614174000'', name = Some ''Ann'', deleted = False\<rparr>"

definition world0 :: "(author list, unit author_ext, author_dto, unit, unit) world" where
  "world0 = \<lparr>db = [ann], calls = []\<rparr>"

text \<open>Inputs for the examples: four option objects and two DTOs.\<close>

definition annSearch :: "unit paginated_service_filters" where
  "annSearch = \<lparr>where' = None, search = Some ''ann'', searchFields = Some [''name''],
                take' = Some 10, skip = Some 20\<rparr>"

definition emptyFields :: "unit paginated_service_filters" where
  "emptyFields = \<lparr>where' = None, search = Some ''ann'', searchFields = Some [],
                  take' = Some 10, skip = Some 20\<rparr>"

definition wildSearch :: "unit paginated_service_filters" where
  "wildSearch = \<lparr>where' = None, search = Some ''a_c'', searchFields = Some [''name''],
                 take' = None, skip = None\<rparr>"

definition escapeSearch :: "unit paginated_service_filters" where
  "escapeSearch = \<lparr>where' = None, search = Some [CHR 0x5C], searchFields = Some [''name''],
                   take' = None, skip = None\<rparr>"

definition noName :: author_dto where
  "noName = \<lparr>dto_uuid = None, dto_name = None\<rparr>"

definition bo :: author_dto where
  "bo = \<lparr>dto_uuid = Some ''00000000-0000-0000-0000-000000000000'', dto_name = Some ''Bo''\<rparr>"

section \<open>How the database reads the search operator\<close>

text \<open>
  The service only builds the operator; the database evaluates it. This section gives
  the SQL it is evaluated by, so that the operator can be compared with what the
  specification calls a case-insensitive substring match. \<^verbatim>\<open>LOWER\<close> maps the letters
  \<^verbatim>\<open>A\<close> to \<^verbatim>\<open>Z\<close> to lower case and leaves every other character alone.
\<close>

definition lowerChar :: "char \<Rightarrow> char" where
  "lowerChar c =
     (case map_of (zip ''ABCDEFGHIJKLMNOPQRSTUVWXYZ'' ''abcdefghijklmnopqrstuvwxyz'') c of
        Some d \<Rightarrow> d
      | None \<Rightarrow> c)"

definition sqlLower :: "string \<Rightarrow> string" where
  "sqlLower s = map lowerChar s"

text \<open>
  \<^verbatim>\<open>text LIKE pattern\<close>: in the pattern, \<^verbatim>\<open>%\<close> stands for any sequence of characters
  and \<^verbatim>\<open>_\<close> for any one character; every other character stands for itself. Databases
  differ in one point, which the flag \<open>bs\<close> records: some (PostgreSQL and MySQL among
  them) take a backslash in the pattern as an escape, so that the character after it
  stands for itself; the others have no escape character unless the query names one,
  and this query names none.
\<close>

fun sqlLike :: "bool \<Rightarrow> string \<Rightarrow> string \<Rightarrow> bool" where
  "sqlLike bs [] t = (t = [])"
| "sqlLike bs (p # ps) [] = (p = CHR ''%'' \<and> sqlLike bs ps [])"
| "sqlLike bs (p # ps) (c # cs) =
     (if p = CHR ''%'' then sqlLike bs ps (c # cs) \<or> sqlLike bs (p # ps) cs
      else if p = CHR ''_'' then sqlLike bs ps cs
      else if bs \<and> p = CHR 0x5C then
        (case ps of [] \<Rightarrow> False | q # qs \<Rightarrow> c = q \<and> sqlLike bs qs cs)
      else c = p \<and> sqlLike bs ps cs)"

text \<open>\<^verbatim>\<open>LOWER(x) Like LOWER(p)\<close> for a column value \<open>x\<close> and a parameter \<open>p\<close>.\<close>

definition lowerLike :: "bool \<Rightarrow> string \<Rightarrow> string \<Rightarrow> bool" where
  "lowerLike bs p x = sqlLike bs (sqlLower p) (sqlLower x)"

text \<open>
  The answer of the database for a \<^verbatim>\<open>where\<close> value on a row whose column holds \<open>x\<close>;
  \<open>column\<close> is the name the ORM hands to the SQL generator. Only the SQL that the
  service generates is interpreted; for any other value the answer is \<open>None\<close>.
\<close>

definition rawMatches :: "bool \<Rightarrow> 'w find_value \<Rightarrow> string \<Rightarrow> string \<Rightarrow> bool option" where
  "rawMatches bs operator column x =
     (case operator of
        Plain v \<Rightarrow> None
      | Raw sql params \<Rightarrow>
          if sql column = ''LOWER('' @ column @ '') Like LOWER(:value)''
          then map_option (\<lambda>p. lowerLike bs p x) (map_of params ''value'')
          else None)"

text \<open>A search string without a character that \<^verbatim>\<open>LIKE\<close> reads specially.\<close>

definition likeLiteral :: "string \<Rightarrow> bool" where
  "likeLiteral s = list_all (\<lambda>c. c \<noteq> CHR ''%'' \<and> c \<noteq> CHR ''_'' \<and> c \<noteq> CHR 0x5C) s"

text \<open>
  The specification's words: the search string occurs in the value as a contiguous
  substring, letter case ignored.
\<close>

definition containsIgnoringCase :: "string \<Rightarrow> string \<Rightarrow> bool" where
  "containsIgnoringCase s x = sublist (sqlLower s) (sqlLower x)"

section \<open>Basic facts\<close>

lemmas author_defs =
  author_service_def author_repository_def author_validate_def author_buildPartial_def
  mem_findOneBy_def mem_findAndCount_def mem_save_def mem_softDelete_def
  base_validateBeforeCreate_def base_validateBeforeEdit_def failing_service_def
  world0_def ann_def noName_def bo_def

text \<open>The \<^verbatim>\<open>forEach\<close> stores the operator under each listed field and nowhere else.\<close>

lemma foldl_setSearchField:
  "foldl (setSearchField s) wh fs = (\<lambda>f. if f \<in> set fs then Some (likeOperator s) else wh f)"
  by (induction fs arbitrary: wh) (auto simp: setSearchField_def fun_eq_iff)

lemma buildOptionsToFilter_None: "buildOptionsToFilter None h = (None, h)"
  by (simp add: buildOptionsToFilter_def)

lemma buildOptionsToFilter_rewrites:
  assumes "searchFields (h r) = Some fs" "fs \<noteq> []" "search (h r) = Some s" "s \<noteq> []"
  shows "buildOptionsToFilter (Some r) h =
           (Some r,
            h(r := (h r)\<lparr>where' := Some (\<lambda>f. if f \<in> set fs then Some (likeOperator s) else None),
                         search := None\<rparr>))"
  using assms by (simp add: buildOptionsToFilter_def foldl_setSearchField)

lemma buildOptionsToFilter_keeps:
  assumes "searchFields (h r) = None \<or> searchFields (h r) = Some [] \<or>
           search (h r) = None \<or> search (h r) = Some []"
  shows "buildOptionsToFilter (Some r) h = (Some r, h)"
  using assms by (auto simp: buildOptionsToFilter_def split: option.splits)

lemma buildOptionsToFilter_ref: "fst (buildOptionsToFilter options h) = options"
  by (auto simp: buildOptionsToFilter_def split: option.splits)

lemma buildOptionsToFilter_take_skip:
  "take' (snd (buildOptionsToFilter options h) a) = take' (h a) \<and>
   skip (snd (buildOptionsToFilter options h) a) = skip (h a)"
  by (auto simp: buildOptionsToFilter_def split: option.splits)

lemma validateDto_invalid:
  "validate svc (plainToInstance svc json) = errs \<Longrightarrow> errs \<noteq> [] \<Longrightarrow>
   validateDto svc json = Inl (ServiceException ''Por favor, confira os dados preenchidos.'' errs)"
  by (simp add: validateDto_def Let_def)

lemma validateDto_valid:
  "validate svc (plainToInstance svc json) = [] \<Longrightarrow>
   validateDto svc json = Inr (plainToInstance svc json)"
  by (simp add: validateDto_def Let_def)

text \<open>Whatever happens, \<^verbatim>\<open>edit\<close> only extends the log, and with no other identifier.\<close>

lemma edit_calls:
  "\<exists>cs. calls (snd (edit svc uid json w)) = calls w @ cs \<and>
        (\<forall>m. Save m \<in> set cs \<longrightarrow> uuid m = Some uid)"
  by (auto simp: edit_def invoke_def split: sum.splits prod.splits)

text \<open>
  \<^verbatim>\<open>LIKE\<close> against \<^verbatim>\<open>%s%\<close>, for a search string \<open>s\<close> without special characters,
  is the test for a contiguous substring.
\<close>

lemma sqlLike_percent_only: "sqlLike bs ''%'' t"
  by (induction t) simp_all

lemma sqlLike_percent:
  "sqlLike bs (CHR ''%'' # ps) t \<longleftrightarrow> (\<exists>pre rest. t = pre @ rest \<and> sqlLike bs ps rest)"
proof (induction t)
  case Nil
  then show ?case by simp
next
  case (Cons c cs)
  show ?case
  proof
    assume "sqlLike bs (CHR ''%'' # ps) (c # cs)"
    then consider "sqlLike bs ps (c # cs)" | "sqlLike bs (CHR ''%'' # ps) cs"
      by auto
    then show "\<exists>pre rest. c # cs = pre @ rest \<and> sqlLike bs ps rest"
    proof cases
      case 1
      then have "c # cs = [] @ (c # cs) \<and> sqlLike bs ps (c # cs)" by simp
      then show ?thesis by blast
    next
      case 2
      with Cons.IH obtain pre rest where "cs = pre @ rest" "sqlLike bs ps rest" by blast
      then have "c # cs = (c # pre) @ rest \<and> sqlLike bs ps rest" by simp
      then show ?thesis by blast
    qed
  next
    assume "\<exists>pre rest. c # cs = pre @ rest \<and> sqlLike bs ps rest"
    then obtain pre rest where eq: "c # cs = pre @ rest" and m: "sqlLike bs ps rest" by blast
    show "sqlLike bs (CHR ''%'' # ps) (c # cs)"
    proof (cases pre)
      case Nil
      with eq have "rest = c # cs" by simp
      with m have "sqlLike bs ps (c # cs)" by simp
      then show ?thesis by simp
    next
      case (Cons a pre')
      with eq have "cs = pre' @ rest" by simp
      with m Cons.IH have "sqlLike bs (CHR ''%'' # ps) cs" by blast
      then show ?thesis by simp
    qed
  qed
qed

lemma sqlLike_literal:
  "likeLiteral s \<Longrightarrow> sqlLike bs (s @ ps) t \<longleftrightarrow> (\<exists>rest. t = s @ rest \<and> sqlLike bs ps rest)"
proof (induction s arbitrary: t)
  case Nil
  then show ?case by simp
next
  case (Cons a s)
  then have a: "a \<noteq> CHR ''%''" "a \<noteq> CHR ''_''" "a \<noteq> CHR 0x5C" and s: "likeLiteral s"
    by (simp_all add: likeLiteral_def)
  show ?case
  proof (cases t)
    case Nil
    with a show ?thesis by simp
  next
    case (Cons c cs)
    with a Cons.IH [OF s, of cs] show ?thesis by auto
  qed
qed

lemma sqlLike_contains:
  assumes "likeLiteral s"
  shows "sqlLike bs (CHR ''%'' # s @ ''%'') t \<longleftrightarrow> sublist s t"
proof -
  have "sqlLike bs (CHR ''%'' # s @ ''%'') t \<longleftrightarrow>
          (\<exists>pre rest. t = pre @ rest \<and> (\<exists>post. rest = s @ post \<and> sqlLike bs ''%'' post))"
    by (simp only: sqlLike_percent sqlLike_literal [OF assms])
  also have "\<dots> \<longleftrightarrow> (\<exists>pre post. t = pre @ s @ post)"
    by (auto simp: sqlLike_percent_only)
  finally show ?thesis by (simp add: sublist_def)
qed

lemma lowerChar_cases:
  "lowerChar c = c \<or> lowerChar c \<in> set ''abcdefghijklmnopqrstuvwxyz''"
  by (simp add: lowerChar_def)

lemma likeLiteral_sqlLower: "likeLiteral s \<Longrightarrow> likeLiteral (sqlLower s)"
proof (induction s)
  case Nil
  then show ?case by (simp add: sqlLower_def likeLiteral_def)
next
  case (Cons a s)
  then have "likeLiteral (sqlLower s)" and a: "a \<noteq> CHR ''%''" "a \<noteq> CHR ''_''" "a \<noteq> CHR 0x5C"
    by (simp_all add: likeLiteral_def)
  moreover have "lowerChar a \<noteq> CHR ''%'' \<and> lowerChar a \<noteq> CHR ''_'' \<and> lowerChar a \<noteq> CHR 0x5C"
    using lowerChar_cases [of a] a by auto
  ultimately show ?case by (simp add: sqlLower_def likeLiteral_def)
qed

lemma sqlLower_pattern: "sqlLower (''%'' @ s @ ''%'') = CHR ''%'' # sqlLower s @ ''%''"
  by (simp add: sqlLower_def lowerChar_def)

lemma lowerLike_contains:
  "likeLiteral s \<Longrightarrow> lowerLike bs (''%'' @ s @ ''%'') x \<longleftrightarrow> containsIgnoringCase s x"
  by (simp only: lowerLike_def sqlLower_pattern containsIgnoringCase_def
      sqlLike_contains [OF likeLiteral_sqlLower])

lemma rawMatches_likeOperator:
  "rawMatches bs (likeOperator s) column x = Some (lowerLike bs (''%'' @ s @ ''%'') x)"
  by (simp add: rawMatches_def likeOperator_def)

section \<open>The claims\<close>

subsection \<open>C1: an invalid DTO never reaches the persistence layer\<close>

text \<open>
  C1. When validation of the instantiated DTO reports at least one violation, both
  \<^verbatim>\<open>create\<close> and \<^verbatim>\<open>edit\<close> reject with the \<^verbatim>\<open>ServiceException\<close> that carries the
  user-facing message and the list of violations, and the world is the one they started
  in: the database is unchanged and no call (no hook, no \<^verbatim>\<open>buildPartial\<close>, no
  \<^verbatim>\<open>save\<close>) was logged.
\<close>

theorem invalid_dto_rejected:
  assumes "validate svc (plainToInstance svc json) = errs" and "errs \<noteq> []"
  shows "create svc json w =
           (Inl (ServiceException ''Por favor, confira os dados preenchidos.'' errs), w) \<and>
         edit svc uid json w =
           (Inl (ServiceException ''Por favor, confira os dados preenchidos.'' errs), w)"
  using assms by (simp add: create_def edit_def validateDto_invalid)

theorem invalid_dto_rejected_witness:
  "validate author_service (plainToInstance author_service noName) =
     [''name should not be empty''] \<and>
   create author_service noName world0 =
     (Inl (ServiceException ''Por favor, confira os dados preenchidos.''
            [''name should not be empty'']), world0) \<and>
   edit author_service ''123e4567-e89b-12d3-a456-426614174000'' noName world0 =
     (Inl (ServiceException ''Por favor, confira os dados preenchidos.''
            [''name should not be empty'']), world0)"
  using invalid_dto_rejected [of author_service noName "[''name should not be empty'']" world0
      "''123e4567-e89b-12d3-a456-426614174000''"]
  by (simp add: author_service_def author_validate_def noName_def)

subsection \<open>C2: the pipeline of create\<close>

text \<open>
  As stated, C2 asks only that the DTO is valid and that the hook does not fail. That is
  not enough: \<^verbatim>\<open>buildPartial\<close> is awaited before \<^verbatim>\<open>save\<close> and may reject. With the
  subclass whose \<^verbatim>\<open>buildPartial\<close> rejects, the DTO \<open>bo\<close> is valid and the hook
  resolves, yet \<^verbatim>\<open>create\<close> rejects and the log holds no \<^verbatim>\<open>save\<close>.
\<close>

theorem create_without_save_counterexample:
  "validate failing_service (plainToInstance failing_service bo) = [] \<and>
   validateBeforeCreate failing_service (plainToInstance failing_service bo) (db world0) =
     (Inr (), db world0) \<and>
   create failing_service bo world0 =
     (Inl (Failure ''no such publisher''),
      \<lparr>db = [ann], calls = [ValidateBeforeCreate bo, BuildPartial bo]\<rparr>) \<and>
   filter (\<lambda>c. case c of Save m \<Rightarrow> True | _ \<Rightarrow> False)
     (calls (snd (create failing_service bo world0))) = []"
  by (simp add: create_def validateDto_def invoke_def author_defs)

text \<open>
  C2, amended. For a DTO that passes validation and whose create hook resolves,
  \<^verbatim>\<open>create\<close> calls \<^verbatim>\<open>buildPartial\<close> exactly once. When \<^verbatim>\<open>buildPartial\<close> resolves
  too, \<^verbatim>\<open>create\<close> calls the repository's \<^verbatim>\<open>save\<close> exactly once, on the built partial
  entity, and settles exactly as that \<^verbatim>\<open>save\<close> did; when \<^verbatim>\<open>buildPartial\<close> rejects,
  \<^verbatim>\<open>create\<close> rejects with the same failure and \<^verbatim>\<open>save\<close> is not called.
\<close>

theorem create_pipeline:
  assumes "validate svc (plainToInstance svc json) = []"
    and "validateBeforeCreate svc (plainToInstance svc json) (db w) = (Inr (), d1)"
  shows "(buildPartial svc (plainToInstance svc json) d1 = (Inr model, d2) \<and>
          r_save (repository svc) model d2 = (res, d3) \<longrightarrow>
            create svc json w =
              (res, \<lparr>db = d3, calls = calls w @
                 [ValidateBeforeCreate (plainToInstance svc json),
                  BuildPartial (plainToInstance svc json), Save model]\<rparr>)) \<and>
         (buildPartial svc (plainToInstance svc json) d1 = (Inl e, d2) \<longrightarrow>
            create svc json w =
              (Inl e, \<lparr>db = d2, calls = calls w @
                 [ValidateBeforeCreate (plainToInstance svc json),
                  BuildPartial (plainToInstance svc json)]\<rparr>))"
  using assms by (simp add: create_def validateDto_valid invoke_def)

theorem create_pipeline_witness:
  "validate author_service (plainToInstance author_service bo) = [] \<and>
   r_save (repository author_service) \<lparr>uuid = dto_uuid bo, name = Some ''Bo'', deleted = False\<rparr> [ann] =
     (Inr \<lparr>uuid = dto_uuid bo, name = Some ''Bo'', deleted = False\<rparr>,
      [ann, \<lparr>uuid = dto_uuid bo, name = Some ''Bo'', deleted = False\<rparr>]) \<and>
   create author_service bo world0 =
     (Inr \<lparr>uuid = dto_uuid bo, name = Some ''Bo'', deleted = False\<rparr>,
      \<lparr>db = [ann, \<lparr>uuid = dto_uuid bo, name = Some ''Bo'', deleted = False\<rparr>],
       calls = [ValidateBeforeCreate bo, BuildPartial bo,
                Save \<lparr>uuid = dto_uuid bo, name = Some ''Bo'', deleted = False\<rparr>]\<rparr>) \<and>
   create failing_service bo world0 =
     (Inl (Failure ''no such publisher''),
      \<lparr>db = [ann], calls = [ValidateBeforeCreate bo, BuildPartial bo]\<rparr>)"
  using create_pipeline [of author_service bo world0 "[ann]"
      "\<lparr>uuid = dto_uuid bo, name = Some ''Bo'', deleted = False\<rparr>" "[ann]"
      "Inr \<lparr>uuid = dto_uuid bo, name = Some ''Bo'', deleted = False\<rparr>"
      "[ann, \<lparr>uuid = dto_uuid bo, name = Some ''Bo'', deleted = False\<rparr>]"]
    create_pipeline [of failing_service bo world0 "[ann]" _ "[ann]" _ _
      "Failure ''no such publisher''"]
  by (simp add: author_defs)

subsection \<open>C3: edit persists under the identifier it was given\<close>

text \<open>
  C3. Every partial entity that \<^verbatim>\<open>edit(uuid, data)\<close> hands to the repository's
  \<^verbatim>\<open>save\<close> carries the identifier \<^verbatim>\<open>uuid\<close>, whatever identifier
  \<^verbatim>\<open>buildPartial\<close> produced; and when validation, the edit hook and \<^verbatim>\<open>buildPartial\<close>
  succeed, \<^verbatim>\<open>edit\<close> makes exactly one such \<^verbatim>\<open>save\<close>, on the built partial entity with
  its identifier overwritten, and settles as that \<^verbatim>\<open>save\<close> did.
\<close>

theorem edit_forces_identity:
  "(\<exists>cs. calls (snd (edit svc uid json w)) = calls w @ cs \<and>
         (\<forall>m. Save m \<in> set cs \<longrightarrow> uuid m = Some uid)) \<and>
   (validate svc (plainToInstance svc json) = [] \<and>
    validateBeforeEdit svc uid (plainToInstance svc json) (db w) = (Inr (), d1) \<and>
    buildPartial svc (plainToInstance svc json) d1 = (Inr model, d2) \<and>
    r_save (repository svc) (model\<lparr>uuid := Some uid\<rparr>) d2 = (res, d3) \<longrightarrow>
      edit svc uid json w =
        (res, \<lparr>db = d3, calls = calls w @
           [ValidateBeforeEdit uid (plainToInstance svc json),
            BuildPartial (plainToInstance svc json), Save (model\<lparr>uuid := Some uid\<rparr>)]\<rparr>))"
proof (intro conjI impI)
  show "\<exists>cs. calls (snd (edit svc uid json w)) = calls w @ cs \<and>
         (\<forall>m. Save m \<in> set cs \<longrightarrow> uuid m = Some uid)"
    by (rule edit_calls)
next
  assume "validate svc (plainToInstance svc json) = [] \<and>
    validateBeforeEdit svc uid (plainToInstance svc json) (db w) = (Inr (), d1) \<and>
    buildPartial svc (plainToInstance svc json) d1 = (Inr model, d2) \<and>
    r_save (repository svc) (model\<lparr>uuid := Some uid\<rparr>) d2 = (res, d3)"
  then show "edit svc uid json w =
        (res, \<lparr>db = d3, calls = calls w @
           [ValidateBeforeEdit uid (plainToInstance svc json),
            BuildPartial (plainToInstance svc json), Save (model\<lparr>uuid := Some uid\<rparr>)]\<rparr>)"
    by (simp add: edit_def validateDto_valid invoke_def)
qed

theorem edit_forces_identity_witness:
  "buildPartial author_service bo [ann] =
     (Inr \<lparr>uuid = Some ''00000000-0000-0000-0000-000000000000'', name = Some ''Bo'',
           deleted = False\<rparr>, [ann]) \<and>
   edit author_service ''123e4567-e89b-12d3-a456-426614174000'' bo world0 =
     (Inr \<lparr>uuid = Some ''123e4567-e89b-12d3-a456-426614174000'', name = Some ''Bo'',
           deleted = False\<rparr>,
      \<lparr>db = [\<lparr>uuid = Some ''123e4567-e89b-12d3-a456-426614174000'', name = Some ''Bo'',
              deleted = False\<rparr>],
       calls = [ValidateBeforeEdit ''123e4567-e89b-12d3-a456-426614174000'' bo, BuildPartial bo,
                Save \<lparr>uuid = Some ''123e4567-e89b-12d3-a456-426614174000'', name = Some ''Bo'',
                      deleted = False\<rparr>]\<rparr>)"
  using edit_forces_identity [of author_service "''123e4567-e89b-12d3-a456-426614174000''" bo
      world0 "[ann]"
      "\<lparr>uuid = Some ''00000000-0000-0000-0000-000000000000'', name = Some ''Bo'', deleted = False\<rparr>"
      "[ann]"
      "Inr \<lparr>uuid = Some ''123e4567-e89b-12d3-a456-426614174000'', name = Some ''Bo'',
            deleted = False\<rparr>"
      "[\<lparr>uuid = Some ''123e4567-e89b-12d3-a456-426614174000'', name = Some ''Bo'',
         deleted = False\<rparr>]"]
  by (simp add: author_defs)

subsection \<open>C4: what buildOptionsToFilter returns\<close>

text \<open>
  As stated, C4 calls the operator stored under each search field a case-insensitive
  substring match against the search string. The search string is put between two
  \<^verbatim>\<open>%\<close> as it is, so a character that \<^verbatim>\<open>LIKE\<close> reads specially keeps its special
  reading. For the search string \<^verbatim>\<open>a_c\<close> the operator accepts the value \<^verbatim>\<open>abc\<close>, which
  does not contain it; and where a backslash escapes, for the search string that is one
  backslash the operator accepts \<^verbatim>\<open>50%\<close>, which contains no backslash.
\<close>

theorem like_operator_wildcard_counterexample:
  "Option.bind
     (Option.bind (where' (snd (buildOptionsToFilter (Some 0) (\<lambda>a. wildSearch)) 0))
        (\<lambda>wh. wh ''name''))
     (\<lambda>operator. rawMatches False operator ''name'' ''abc'') = Some True \<and>
   \<not> containsIgnoringCase ''a_c'' ''abc'' \<and>
   Option.bind
     (Option.bind (where' (snd (buildOptionsToFilter (Some 0) (\<lambda>a. escapeSearch)) 0))
        (\<lambda>wh. wh ''name''))
     (\<lambda>operator. rawMatches True operator ''name'' ''50%'') = Some True \<and>
   \<not> containsIgnoringCase [CHR 0x5C] ''50%''"
  by (simp add: buildOptionsToFilter_def wildSearch_def escapeSearch_def setSearchField_def
      likeOperator_def rawMatches_def lowerLike_def sqlLower_def lowerChar_def
      containsIgnoringCase_def sublist_Cons_right)

text \<open>
  C4, amended. When \<^verbatim>\<open>searchFields\<close> and \<^verbatim>\<open>search\<close> are both present and non-empty,
  the options that \<^verbatim>\<open>buildOptionsToFilter\<close> returns have a \<^verbatim>\<open>where\<close> that holds, under
  every field of \<^verbatim>\<open>searchFields\<close> and under no other key, the operator
  \<^verbatim>\<open>LOWER(column) Like LOWER(:value)\<close> with \<^verbatim>\<open>value\<close> the search string between two
  \<^verbatim>\<open>%\<close>, and have no \<^verbatim>\<open>search\<close> key. When the search string contains none of
  \<^verbatim>\<open>%\<close>, \<^verbatim>\<open>_\<close> and the backslash, that operator is a case-insensitive substring match
  against it, on every listed field and every column value, whether or not the database
  takes the backslash as an escape. When either option is absent or empty, or
  \<^verbatim>\<open>options\<close> itself is \<^verbatim>\<open>undefined\<close>, the method returns its argument and nothing
  has changed.
\<close>

theorem buildOptionsToFilter_search:
  "(searchFields (h r) = Some fs \<and> fs \<noteq> [] \<and> search (h r) = Some s \<and> s \<noteq> [] \<longrightarrow>
      (\<exists>h' wh. buildOptionsToFilter (Some r) h = (Some r, h') \<and>
            where' (h' r) = Some wh \<and>
            wh = (\<lambda>f. if f \<in> set fs
                       then Some (Raw (\<lambda>v. ''LOWER('' @ v @ '') Like LOWER(:value)'')
                                      [(''value'', ''%'' @ s @ ''%'')])
                       else None) \<and>
            search (h' r) = None \<and>
            (likeLiteral s \<longrightarrow>
               (\<forall>f \<in> set fs. \<exists>operator. wh f = Some operator \<and>
                  (\<forall>column x. rawMatches bs operator column x = Some (containsIgnoringCase s x)))))) \<and>
   (searchFields (h r) = None \<or> searchFields (h r) = Some [] \<or>
    search (h r) = None \<or> search (h r) = Some [] \<longrightarrow>
      buildOptionsToFilter (Some r) h = (Some r, h)) \<and>
   buildOptionsToFilter None h = (None, h)"
proof (intro conjI impI)
  assume a: "searchFields (h r) = Some fs \<and> fs \<noteq> [] \<and> search (h r) = Some s \<and> s \<noteq> []"
  let ?wh = "\<lambda>f. if f \<in> set fs then Some (likeOperator s :: 'a find_value) else None"
  let ?h' = "h(r := (h r)\<lparr>where' := Some ?wh, search := None\<rparr>)"
  have run: "buildOptionsToFilter (Some r) h = (Some r, ?h')"
    using a by (simp add: buildOptionsToFilter_rewrites)
  have shape: "?wh = (\<lambda>f. if f \<in> set fs
                       then Some (Raw (\<lambda>v. ''LOWER('' @ v @ '') Like LOWER(:value)'')
                                      [(''value'', ''%'' @ s @ ''%'')])
                       else None)"
    unfolding likeOperator_def by (rule refl)
  have sem: "likeLiteral s \<longrightarrow>
               (\<forall>f \<in> set fs. \<exists>operator. ?wh f = Some operator \<and>
                  (\<forall>column x. rawMatches bs operator column x = Some (containsIgnoringCase s x)))"
    using lowerLike_contains [of s bs] by (simp add: rawMatches_likeOperator)
  have "where' (?h' r) = Some ?wh" and "search (?h' r) = None"
    by simp_all
  with run shape sem
  show "\<exists>h' wh. buildOptionsToFilter (Some r) h = (Some r, h') \<and>
            where' (h' r) = Some wh \<and>
            wh = (\<lambda>f. if f \<in> set fs
                       then Some (Raw (\<lambda>v. ''LOWER('' @ v @ '') Like LOWER(:value)'')
                                      [(''value'', ''%'' @ s @ ''%'')])
                       else None) \<and>
            search (h' r) = None \<and>
            (likeLiteral s \<longrightarrow>
               (\<forall>f \<in> set fs. \<exists>operator. wh f = Some operator \<and>
                  (\<forall>column x. rawMatches bs operator column x = Some (containsIgnoringCase s x))))"
    by blast
next
  assume "searchFields (h r) = None \<or> searchFields (h r) = Some [] \<or>
    search (h r) = None \<or> search (h r) = Some []"
  then show "buildOptionsToFilter (Some r) h = (Some r, h)"
    by (rule buildOptionsToFilter_keeps)
next
  show "buildOptionsToFilter None h = (None, h)"
    by (rule buildOptionsToFilter_None)
qed

theorem buildOptionsToFilter_search_witness:
  "likeLiteral ''ann'' \<and>
   (\<exists>h' wh. buildOptionsToFilter (Some 0) (\<lambda>a. annSearch) = (Some 0, h') \<and>
        where' (h' 0) = Some wh \<and>
        wh ''name'' = Some (Raw (\<lambda>v. ''LOWER('' @ v @ '') Like LOWER(:value)'')
                                [(''value'', ''%ann%'')]) \<and>
        wh ''uuid'' = None \<and>
        search (h' 0) = None \<and>
        Option.bind (wh ''name'') (\<lambda>operator. rawMatches False operator ''name'' ''Joanna'') =
          Some True \<and>
        Option.bind (wh ''name'') (\<lambda>operator. rawMatches True operator ''name'' ''Bo'') =
          Some False) \<and>
   containsIgnoringCase ''ann'' ''Joanna'' \<and>
   \<not> containsIgnoringCase ''ann'' ''Bo'' \<and>
   buildOptionsToFilter (Some 0) (\<lambda>a. emptyFields) = (Some 0, \<lambda>a. emptyFields)"
proof -
  have lit: "likeLiteral ''ann''"
    by (simp add: likeLiteral_def)
  have c1: "containsIgnoringCase ''ann'' ''Joanna''" and c2: "\<not> containsIgnoringCase ''ann'' ''Bo''"
    by (simp_all add: containsIgnoringCase_def sqlLower_def lowerChar_def sublist_Cons_right)
  have pre: "searchFields ((\<lambda>a. annSearch) (0::nat)) = Some [''name''] \<and> [''name''] \<noteq> [] \<and>
             search ((\<lambda>a. annSearch) (0::nat)) = Some ''ann'' \<and> ''ann'' \<noteq> []"
    by (simp add: annSearch_def)
  from buildOptionsToFilter_search [of "\<lambda>a. annSearch" 0 "[''name'']" "''ann''" False] pre lit
  obtain h' wh where
    run: "buildOptionsToFilter (Some 0) (\<lambda>a. annSearch) = (Some 0, h')"
    and wh: "where' (h' 0) = Some wh"
    and shape: "wh = (\<lambda>f. if f \<in> set [''name'']
                       then Some (Raw (\<lambda>v. ''LOWER('' @ v @ '') Like LOWER(:value)'')
                                      [(''value'', ''%'' @ ''ann'' @ ''%'')])
                       else None)"
    and s: "search (h' 0) = None"
    and sem: "\<forall>f \<in> set [''name'']. \<exists>operator. wh f = Some operator \<and>
                  (\<forall>column x. rawMatches False operator column x =
                     Some (containsIgnoringCase ''ann'' x))"
    by blast
  from sem have m1:
    "Option.bind (wh ''name'') (\<lambda>operator. rawMatches False operator ''name'' ''Joanna'') =
       Some True"
    using c1 by auto
  from buildOptionsToFilter_search [of "\<lambda>a. annSearch" 0 "[''name'']" "''ann''" True] pre lit run wh
  have "\<exists>operator. wh ''name'' = Some operator \<and>
          (\<forall>column x. rawMatches True operator column x = Some (containsIgnoringCase ''ann'' x))"
    by auto
  then have m2:
    "Option.bind (wh ''name'') (\<lambda>operator. rawMatches True operator ''name'' ''Bo'') =
       Some False"
    using c2 by auto
  have keep: "buildOptionsToFilter (Some 0) (\<lambda>a. emptyFields) = (Some 0, \<lambda>a. emptyFields)"
    using buildOptionsToFilter_search [of "\<lambda>a. emptyFields" 0 "[]" "''ann''" False]
    by (simp add: emptyFields_def)
  have n: "wh ''name'' = Some (Raw (\<lambda>v. ''LOWER('' @ v @ '') Like LOWER(:value)'')
                                [(''value'', ''%ann%'')])" and u: "wh ''uuid'' = None"
    unfolding shape by simp_all
  from run wh n u s m1 m2 have
    "\<exists>h' wh. buildOptionsToFilter (Some 0) (\<lambda>a. annSearch) = (Some 0, h') \<and>
        where' (h' 0) = Some wh \<and>
        wh ''name'' = Some (Raw (\<lambda>v. ''LOWER('' @ v @ '') Like LOWER(:value)'')
                                [(''value'', ''%ann%'')]) \<and>
        wh ''uuid'' = None \<and>
        search (h' 0) = None \<and>
        Option.bind (wh ''name'') (\<lambda>operator. rawMatches False operator ''name'' ''Joanna'') =
          Some True \<and>
        Option.bind (wh ''name'') (\<lambda>operator. rawMatches True operator ''name'' ''Bo'') =
          Some False"
    by blast
  with lit c1 c2 keep show ?thesis by blast
qed

subsection \<open>C5: get\<close>

text \<open>
  C5. For an identifier that \<^verbatim>\<open>isUUID\<close> refuses, \<^verbatim>\<open>get\<close> resolves to \<^verbatim>\<open>null\<close> and
  the world is untouched: the repository is not called. For an identifier that
  \<^verbatim>\<open>isUUID\<close> accepts and for which the repository's \<^verbatim>\<open>findOneBy\<close> finds no record
  (resolves to \<^verbatim>\<open>null\<close>), \<^verbatim>\<open>get\<close> resolves to \<^verbatim>\<open>null\<close> after exactly that one
  \<^verbatim>\<open>findOneBy\<close> call.
\<close>

theorem get_absent:
  "(\<not> isUUID svc uid \<longrightarrow> get svc uid w = (Inr None, w)) \<and>
   (isUUID svc uid \<and> r_findOneBy (repository svc) uid (db w) = (Inr None, d') \<longrightarrow>
      get svc uid w = (Inr None, \<lparr>db = d', calls = calls w @ [FindOneBy uid]\<rparr>))"
  by (simp add: get_def invoke_def)

theorem get_absent_witness:
  "\<not> isUUID author_service ''not-a-uuid'' \<and>
   get author_service ''not-a-uuid'' world0 = (Inr None, world0) \<and>
   isUUID author_service ''00000000-0000-0000-0000-000000000000'' \<and>
   r_findOneBy (repository author_service) ''00000000-0000-0000-0000-000000000000'' (db world0) =
     (Inr None, [ann]) \<and>
   get author_service ''00000000-0000-0000-0000-000000000000'' world0 =
     (Inr None, \<lparr>db = [ann], calls = [FindOneBy ''00000000-0000-0000-0000-000000000000'']\<rparr>)"
  using get_absent [of author_service "''not-a-uuid''" world0]
    get_absent [of author_service "''00000000-0000-0000-0000-000000000000''" world0 "[ann]"]
  by (simp add: author_defs uuidSyntax_def hexDigit_def)

subsection \<open>C6: save\<close>

text \<open>
  C6. \<^verbatim>\<open>save(model)\<close> is claimed to return the entity the repository persisted. The
  method does call the repository's \<^verbatim>\<open>save\<close> once, on the model, but what it returns
  is index 0 of the promise: \<^verbatim>\<open>undefined\<close>, for every service, model and state. On
  the empty table the repository resolves to the author \<open>ann\<close> and stores it, and
  \<^verbatim>\<open>save\<close> still returns \<^verbatim>\<open>undefined\<close>.
\<close>

theorem save_returns_undefined:
  "fst (save svc model w) = None \<and>
   calls (snd (save svc model w)) = calls w @ [Save model] \<and>
   r_save (repository author_service) ann [] = (Inr ann, [ann]) \<and>
   save author_service ann \<lparr>db = [], calls = []\<rparr> = (None, \<lparr>db = [ann], calls = [Save ann]\<rparr>)"
  by (simp add: save_def invoke_def promiseIndex_def author_service_def author_repository_def
      mem_save_def split: prod.splits)

subsection \<open>C7: remove\<close>

text \<open>
  C7. \<^verbatim>\<open>remove(uuid)\<close> makes one call on the persistence layer, \<^verbatim>\<open>softDelete(uuid)\<close>,
  and nothing else. When that call resolves, \<^verbatim>\<open>remove\<close> resolves to
  \<^verbatim>\<open>{ affected }\<close> with the count the persistence layer reported; when it rejects,
  \<^verbatim>\<open>remove\<close> rejects with the same failure. On the in-memory table the reported count
  is 1 for a live record and 0 for an identifier that no record has.
\<close>

theorem remove_soft_deletes:
  "(r_softDelete (repository svc) uid (db w) = (Inr result, d') \<longrightarrow>
      remove svc uid w =
        (Inr \<lparr>affected = affected result\<rparr>, \<lparr>db = d', calls = calls w @ [SoftDelete uid]\<rparr>)) \<and>
   (r_softDelete (repository svc) uid (db w) = (Inl e, d') \<longrightarrow>
      remove svc uid w = (Inl e, \<lparr>db = d', calls = calls w @ [SoftDelete uid]\<rparr>))"
  by (simp add: remove_def invoke_def)

theorem remove_soft_deletes_witness:
  "r_softDelete (repository author_service) ''123e4567-e89b-12d3-a456-426614174000'' (db world0) =
     (Inr \<lparr>affected = Some 1, raw = []\<rparr>, [ann\<lparr>deleted := True\<rparr>]) \<and>
   remove author_service ''123e4567-e89b-12d3-a456-426614174000'' world0 =
     (Inr \<lparr>affected = Some 1\<rparr>,
      \<lparr>db = [ann\<lparr>deleted := True\<rparr>],
       calls = [SoftDelete ''123e4567-e89b-12d3-a456-426614174000'']\<rparr>) \<and>
   r_softDelete (repository author_service) ''00000000-0000-0000-0000-000000000000'' (db world0) =
     (Inr \<lparr>affected = Some 0, raw = []\<rparr>, [ann]) \<and>
   remove author_service ''00000000-0000-0000-0000-000000000000'' world0 =
     (Inr \<lparr>affected = Some 0\<rparr>,
      \<lparr>db = [ann], calls = [SoftDelete ''00000000-0000-0000-0000-000000000000'']\<rparr>)"
  using remove_soft_deletes [of author_service "''123e4567-e89b-12d3-a456-426614174000''" world0
      "\<lparr>affected = Some 1, raw = []\<rparr>" "[ann\<lparr>deleted := True\<rparr>]"]
    remove_soft_deletes [of author_service "''00000000-0000-0000-0000-000000000000''" world0
      "\<lparr>affected = Some 0, raw = []\<rparr>" "[ann]"]
  by (simp add: author_defs)

subsection \<open>C8: filter echoes the requested page bounds\<close>

text \<open>
  C8. \<^verbatim>\<open>filter(options)\<close> calls \<^verbatim>\<open>findAndCount\<close> once, with the options as
  \<^verbatim>\<open>buildOptionsToFilter\<close> left them; when that call resolves to rows and a count, the
  response holds those rows as \<^verbatim>\<open>data\<close>, that count as \<^verbatim>\<open>total\<close>, and as \<^verbatim>\<open>limit\<close>
  and \<^verbatim>\<open>offset\<close> the \<^verbatim>\<open>take\<close> and \<^verbatim>\<open>skip\<close> of the options as they were passed in
  (absent when \<^verbatim>\<open>options\<close> is \<^verbatim>\<open>undefined\<close>), whatever the size of the page.
\<close>

theorem filter_echoes_pagination:
  assumes "buildOptionsToFilter options h = (opt, h')"
    and "r_findAndCount (repository svc) (map_option h' opt) (db w) = (Inr (rows, n), d')"
  shows "filter' svc options h w =
           (Inr \<lparr>data = rows, total = n,
                 limit = Option.bind options (\<lambda>r. take' (h r)),
                 offset = Option.bind options (\<lambda>r. skip (h r))\<rparr>,
            h', \<lparr>db = d', calls = calls w @ [FindAndCount (map_option h' opt)]\<rparr>)"
proof -
  have opt: "opt = options" and h': "h' = snd (buildOptionsToFilter options h)"
    using assms(1) buildOptionsToFilter_ref [of options h] by simp_all
  have "Option.bind opt (\<lambda>r. take' (h' r)) = Option.bind options (\<lambda>r. take' (h r))"
    and "Option.bind opt (\<lambda>r. skip (h' r)) = Option.bind options (\<lambda>r. skip (h r))"
    unfolding opt h' by (simp_all add: buildOptionsToFilter_take_skip)
  then show ?thesis
    using assms by (simp add: filter'_def invoke_def)
qed

theorem filter_echoes_pagination_witness:
  "buildOptionsToFilter (Some 0) (\<lambda>a. annSearch) =
     (Some 0,
      (\<lambda>a. annSearch)
        (0 := annSearch\<lparr>where' := Some (foldl (setSearchField ''ann'') Map.empty [''name'']),
                        search := None\<rparr>)) \<and>
   filter' author_service (Some 0) (\<lambda>a. annSearch) world0 =
     (Inr \<lparr>data = [], total = 1, limit = Some 10, offset = Some 20\<rparr>,
      (\<lambda>a. annSearch)
        (0 := annSearch\<lparr>where' := Some (foldl (setSearchField ''ann'') Map.empty [''name'']),
                        search := None\<rparr>),
      \<lparr>db = [ann],
       calls = [FindAndCount
         (Some (annSearch\<lparr>where' := Some (foldl (setSearchField ''ann'') Map.empty [''name'']),
                          search := None\<rparr>))]\<rparr>)"
  using filter_echoes_pagination [of "Some 0" "\<lambda>a. annSearch" "Some 0"
      "(\<lambda>a. annSearch)
         (0 := annSearch\<lparr>where' := Some (foldl (setSearchField ''ann'') Map.empty [''name'']),
                         search := None\<rparr>)"
      author_service world0 "[]" 1 "[ann]"]
  by (simp add: author_defs annSearch_def buildOptionsToFilter_def)

subsection \<open>C9: buildOptionsToFilter works in place\<close>

text \<open>
  As stated, C9 says that the caller's options object is the same after the call as
  before. The method assigns to \<^verbatim>\<open>options.where\<close> and deletes \<^verbatim>\<open>options.search\<close> on
  the object it was passed: after a call on the object \<open>annSearch\<close>, the object at the
  caller's address is no longer \<open>annSearch\<close>.
\<close>

theorem buildOptionsToFilter_pure_counterexample:
  "snd (buildOptionsToFilter (Some 0) (\<lambda>a. annSearch)) 0 \<noteq> annSearch"
proof
  assume "snd (buildOptionsToFilter (Some 0) (\<lambda>a. annSearch)) 0 = annSearch"
  then have "search (snd (buildOptionsToFilter (Some 0) (\<lambda>a. annSearch)) 0) = search annSearch"
    by simp
  then show False
    by (simp add: buildOptionsToFilter_def annSearch_def)
qed

text \<open>
  C9, amended. \<^verbatim>\<open>buildOptionsToFilter\<close> returns the reference it was passed and changes
  no object but the one passed. When \<^verbatim>\<open>search\<close> or \<^verbatim>\<open>searchFields\<close> is absent or
  empty, that object is unchanged as well. When both are non-empty, the caller's object
  itself is updated: its \<^verbatim>\<open>where\<close> is replaced by the search predicate, its
  \<^verbatim>\<open>search\<close> key is deleted, and its other fields keep their values.
\<close>

theorem buildOptionsToFilter_in_place:
  "fst (buildOptionsToFilter options h) = options \<and>
   (\<forall>a. options \<noteq> Some a \<longrightarrow> snd (buildOptionsToFilter options h) a = h a) \<and>
   (\<forall>r. options = Some r \<longrightarrow>
      (searchFields (h r) = None \<or> searchFields (h r) = Some [] \<or>
       search (h r) = None \<or> search (h r) = Some [] \<longrightarrow>
         snd (buildOptionsToFilter options h) = h) \<and>
      (\<forall>fs s. searchFields (h r) = Some fs \<and> fs \<noteq> [] \<and> search (h r) = Some s \<and> s \<noteq> [] \<longrightarrow>
         snd (buildOptionsToFilter options h) r =
           (h r)\<lparr>where' := Some (\<lambda>f. if f \<in> set fs then Some (likeOperator s) else None),
                  search := None\<rparr>))"
proof (intro conjI allI impI)
  show "fst (buildOptionsToFilter options h) = options"
    by (rule buildOptionsToFilter_ref)
next
  fix a assume "options \<noteq> Some a"
  then show "snd (buildOptionsToFilter options h) a = h a"
    by (auto simp: buildOptionsToFilter_def split: option.splits)
next
  fix r
  assume "options = Some r"
    and "searchFields (h r) = None \<or> searchFields (h r) = Some [] \<or>
         search (h r) = None \<or> search (h r) = Some []"
  then show "snd (buildOptionsToFilter options h) = h"
    by (simp add: buildOptionsToFilter_keeps)
next
  fix r fs s
  assume "options = Some r"
    and "searchFields (h r) = Some fs \<and> fs \<noteq> [] \<and> search (h r) = Some s \<and> s \<noteq> []"
  then show "snd (buildOptionsToFilter options h) r =
           (h r)\<lparr>where' := Some (\<lambda>f. if f \<in> set fs then Some (likeOperator s) else None),
                  search := None\<rparr>"
    by (simp add: buildOptionsToFilter_rewrites)
qed

theorem buildOptionsToFilter_in_place_witness:
  "fst (buildOptionsToFilter (Some 0) (\<lambda>a. annSearch)) = Some 0 \<and>
   snd (buildOptionsToFilter (Some 0) (\<lambda>a. annSearch)) 1 = annSearch \<and>
   snd (buildOptionsToFilter (Some 0) (\<lambda>a. annSearch)) 0 =
     annSearch\<lparr>where' := Some (\<lambda>f. if f \<in> set [''name''] then Some (likeOperator ''ann'')
                                    else None),
               search := None\<rparr> \<and>
   snd (buildOptionsToFilter (Some 0) (\<lambda>a. emptyFields)) = (\<lambda>a. emptyFields)"
  using buildOptionsToFilter_in_place [of "Some 0" "\<lambda>a. annSearch"]
    buildOptionsToFilter_in_place [of "Some 0" "\<lambda>a. emptyFields"]
  by (simp add: annSearch_def emptyFields_def)

subsection \<open>C10: remove does not check the identifier\<close>

text \<open>
  C10. For every identifier, well-formed or not, \<^verbatim>\<open>remove\<close> calls \<^verbatim>\<open>softDelete\<close>
  with that very identifier, exactly once, and settles as the persistence layer
  decides: \<^verbatim>\<open>isUUID\<close> plays no part in it. \<^verbatim>\<open>get\<close>, in contrast, reaches the
  persistence layer only for an identifier that \<^verbatim>\<open>isUUID\<close> accepts.
\<close>

theorem remove_skips_uuid_check:
  "remove svc uid w =
     (case r_softDelete (repository svc) uid (db w) of
        (res, d') \<Rightarrow>
          (map_sum id (\<lambda>result. \<lparr>affected = affected result\<rparr>) res,
           \<lparr>db = d', calls = calls w @ [SoftDelete uid]\<rparr>)) \<and>
   calls (snd (remove svc uid w)) = calls w @ [SoftDelete uid] \<and>
   calls (snd (get svc uid w)) = (if isUUID svc uid then calls w @ [FindOneBy uid] else calls w)"
  by (auto simp: remove_def get_def invoke_def split: prod.splits sum.splits)

theorem remove_skips_uuid_check_witness:
  "\<not> isUUID author_service ''not-a-uuid'' \<and>
   remove author_service ''not-a-uuid'' world0 =
     (Inr \<lparr>affected = Some 0\<rparr>, \<lparr>db = [ann], calls = [SoftDelete ''not-a-uuid'']\<rparr>) \<and>
   calls (snd (get author_service ''not-a-uuid'' world0)) = [] \<and>
   isUUID author_service ''123e4567-e89b-12d3-a456-426614174000'' \<and>
   calls (snd (remove author_service ''123e4567-e89b-12d3-a456-426614174000'' world0)) =
     [SoftDelete ''123e4567-e89b-12d3-a456-426614174000''] \<and>
   calls (snd (get author_service ''123e4567-e89b-12d3-a456-426614174000'' world0)) =
     [FindOneBy ''123e4567-e89b-12d3-a456-426614174000'']"
  using remove_skips_uuid_check [of author_service "''not-a-uuid''" world0]
    remove_skips_uuid_check [of author_service "''123e4567-e89b-12d3-a456-426614174000''" world0]
  by (simp add: author_defs uuidSyntax_def hexDigit_def)

end
